theory Spec2Isabelle
  imports Main "HOL-Library.Sublist"
begin

section \<open>The JavaScript values the program handles\<close>

text \<open>
  What \<^verbatim>\<open>JSON.parse\<close> returns. The number type is a parameter: the program does no
  arithmetic, it only carries numbers and splices them into a URL. An object lists its
  properties in the order of the text; a later binding of a key overrides an earlier one.
\<close>

datatype 'n json =
  JNull
| JBool bool
| JNum 'n
| JStr string
| JArr "'n json list"
| JObj "(string \<times> 'n json) list"

text \<open>A JavaScript value that may be \<^verbatim>\<open>undefined\<close> (\<open>None\<close>).\<close>

type_synonym 'n jsval = "'n json option"

text \<open>
  Error values: \<open>Error msg\<close> is \<^verbatim>\<open>Error(msg)\<close>; the next three are the runtime's own
  exceptions; the last two are the rejection reasons of \<^verbatim>\<open>request-promise-native\<close>.
\<close>

datatype error =
  Error string
| SyntaxError
| TypeError
| ReferenceError string
| RequestError error
| StatusCodeError nat string

text \<open>
  What the \<^verbatim>\<open>request\<close> library hands to its callback \<^verbatim>\<open>(err, res, body)\<close>: either a
  truthy \<^verbatim>\<open>err\<close>, or a response with its \<^verbatim>\<open>statusCode\<close> and its body.
\<close>

datatype reply = Failure error | Response nat string

text \<open>
  The parts of the platform the program calls and the repository does not contain:
  the network behind \<^verbatim>\<open>request\<close>, \<^verbatim>\<open>JSON.parse\<close> (\<open>None\<close> when it throws
  a SyntaxError) and the conversion of a number to a string.
\<close>

record 'n runtime =
  respond :: "string \<Rightarrow> reply"
  JSON_parse :: "string \<Rightarrow> 'n json option"
  Number_toString :: "'n \<Rightarrow> string"

subsection \<open>Property access\<close>

text \<open>
  \<^verbatim>\<open>v.k\<close> for the property names the program reads (\<^verbatim>\<open>ip\<close>, \<^verbatim>\<open>status\<close>, \<^verbatim>\<open>lat\<close>,
  \<^verbatim>\<open>lon\<close>, \<^verbatim>\<open>message\<close>, \<^verbatim>\<open>response\<close>), none of which a prototype provides: reading
  a property of \<^verbatim>\<open>null\<close> throws a TypeError, an object yields its own property or
  \<^verbatim>\<open>undefined\<close>, every other value yields \<^verbatim>\<open>undefined\<close>.
\<close>

fun get_prop :: "'n json \<Rightarrow> string \<Rightarrow> error + 'n jsval" where
  "get_prop JNull k = Inl TypeError"
| "get_prop (JObj kvs) k = Inr (map_of (rev kvs) k)"
| "get_prop v k = Inr None"

text \<open>Whether a parsed value is an object with an own property \<open>k\<close>.\<close>

definition has_field :: "'n json \<Rightarrow> string \<Rightarrow> bool" where
  "has_field v k = (case v of JObj kvs \<Rightarrow> k \<in> fst ` set kvs | _ \<Rightarrow> False)"

subsection \<open>Conversion to a string in a template literal\<close>

fun join_comma :: "string list \<Rightarrow> string" where
  "join_comma [] = []"
| "join_comma [s] = s"
| "join_comma (s # t # ss) = s @ '','' @ join_comma (t # ss)"

text \<open>
  \<^verbatim>\<open>`${v}`\<close> for a parsed value: \<open>None\<close> is the TypeError of an object whose own
  \<^verbatim>\<open>toString\<close> property hides the inherited method. An array joins its elements with
  commas, \<^verbatim>\<open>null\<close> elements giving the empty string.
\<close>

fun ToString :: "('n \<Rightarrow> string) \<Rightarrow> 'n json \<Rightarrow> string option" where
  "ToString ns JNull = Some ''null''"
| "ToString ns (JBool b) = Some (if b then ''true'' else ''false'')"
| "ToString ns (JNum n) = Some (ns n)"
| "ToString ns (JStr s) = Some s"
| "ToString ns (JArr xs) =
     map_option join_comma
       (those (map (\<lambda>x. case x of JNull \<Rightarrow> Some [] | _ \<Rightarrow> ToString ns x) xs))"
| "ToString ns (JObj kvs) =
     (if ''toString'' \<in> fst ` set kvs then None else Some ''[object Object]'')"

definition template :: "('n \<Rightarrow> string) \<Rightarrow> 'n jsval \<Rightarrow> string option" where
  "template ns v = (case v of None \<Rightarrow> Some ''undefined'' | Some j \<Rightarrow> ToString ns j)"

text \<open>The decimal digits of a status code, as \<^verbatim>\<open>`${res.statusCode}`\<close> prints them.\<close>

definition digit :: "nat \<Rightarrow> char" where
  "digit d = ''0123456789'' ! d"

fun decimal :: "nat \<Rightarrow> string" where
  "decimal n = (if n < 10 then [digit n] else decimal (n div 10) @ [digit (n mod 10)])"


declare decimal.simps [simp del]

section \<open>What an invocation does\<close>

text \<open>
  The observable course of an asynchronous computation: the resolvers entered and the
  URLs requested, in order of time, and how it ended. \<open>Inl e\<close> is an exception that no
  one caught; \<open>Inr r\<close> is what the last callback returned.
\<close>

datatype stage = FetchMyIP | FetchCoordsByIP | FetchISSFlyOverTimes

datatype event = Invoked stage | Requested string

type_synonym 'r answer = "event list \<times> (error + 'r)"

definition emit :: "event \<Rightarrow> 'r answer \<Rightarrow> 'r answer" where
  "emit ev a = (ev # fst a, snd a)"

definition throw :: "error \<Rightarrow> 'r answer" where
  "throw e = ([], Inl e)"

text \<open>
  \<^verbatim>\<open>request(url, cb)\<close>: the library performs the request and later calls \<open>cb\<close> with
  the outcome; an exception thrown by \<open>cb\<close> is caught by no one.
\<close>

definition request :: "'n runtime \<Rightarrow> string \<Rightarrow> (reply \<Rightarrow> 'r answer) \<Rightarrow> 'r answer" where
  "request rt url cb = emit (Requested url) (cb (respond rt url))"

section \<open>iss.js: the callback-based variant\<close>

text \<open>
  A callback \<^verbatim>\<open>(error, value)\<close> takes the error as \<open>error option\<close> (\<open>None\<close> is
  \<^verbatim>\<open>null\<close>). The \<^verbatim>\<open>null\<close> passed as the value beside an error is \<open>Some JNull\<close>
  for the resolvers of a parsed value and \<open>None\<close> for the coordinates object.
\<close>

definition fetchMyIP ::
  "'n runtime \<Rightarrow> (error option \<Rightarrow> 'n jsval \<Rightarrow> 'r answer) \<Rightarrow> 'r answer" where
  "fetchMyIP rt callback =
     emit (Invoked FetchMyIP)
      (request rt ''https://api64.ipify.org/?format=json'' (\<lambda>r.
         case r of
           Failure err \<Rightarrow> callback (Some err) (Some JNull)
         | Response statusCode body \<Rightarrow>
             if statusCode \<noteq> 200 then
               (let msg = ''Status Code '' @ decimal statusCode
                            @ '' when fetching IP. Response: '' @ body
                in callback (Some (Error msg)) (Some JNull))
             else
               (case JSON_parse rt body of
                  None \<Rightarrow> throw SyntaxError
                | Some data \<Rightarrow>
                    (case get_prop data ''ip'' of
                       Inl e \<Rightarrow> throw e
                     | Inr ip \<Rightarrow> callback None ip))))"

record 'n coords =
  lat :: "'n jsval"
  lon :: "'n jsval"

definition fetchCoordsByIP ::
  "'n runtime \<Rightarrow> 'n jsval \<Rightarrow> (error option \<Rightarrow> 'n coords option \<Rightarrow> 'r answer) \<Rightarrow> 'r answer" where
  "fetchCoordsByIP rt ip callback =
     emit (Invoked FetchCoordsByIP)
      (case template (Number_toString rt) ip of
         None \<Rightarrow> throw TypeError
       | Some ip_str \<Rightarrow>
           request rt (''http://ip-api.com/json/'' @ ip_str) (\<lambda>r.
             case r of
               Failure err \<Rightarrow> callback (Some err) None
             | Response statusCode body \<Rightarrow>
                 if statusCode \<noteq> 200 then
                   (let msg = ''Status Code '' @ decimal statusCode
                                @ '' when fetching coordinates. Response: '' @ body
                    in callback (Some (Error msg)) None)
                 else
                   (case JSON_parse rt body of
                      None \<Rightarrow> throw SyntaxError
                    | Some data \<Rightarrow>
                        (case get_prop data ''status'' of
                           Inl e \<Rightarrow> throw e
                         | Inr status \<Rightarrow>
                             if status = Some (JStr ''fail'') then
                               callback
                                 (Some (Error (''Coordinates api returned status fail. Response: ''
                                                @ body)))
                                 None
                             else
                               (case get_prop data ''lat'' of
                                  Inl e \<Rightarrow> throw e
                                | Inr data_lat \<Rightarrow>
                                    (case get_prop data ''lon'' of
                                       Inl e \<Rightarrow> throw e
                                     | Inr data_lon \<Rightarrow>
                                         callback None
                                           (Some \<lparr>lat = data_lat, lon = data_lon\<rparr>)))))))"

definition fetchISSFlyOverTimes ::
  "'n runtime \<Rightarrow> 'n coords option \<Rightarrow> (error option \<Rightarrow> 'n jsval \<Rightarrow> 'r answer) \<Rightarrow> 'r answer" where
  "fetchISSFlyOverTimes rt coords callback =
     emit (Invoked FetchISSFlyOverTimes)
      (case coords of
         None \<Rightarrow> throw TypeError
       | Some c \<Rightarrow>
           (case template (Number_toString rt) (lat c) of
              None \<Rightarrow> throw TypeError
            | Some lat_str \<Rightarrow>
                (case template (Number_toString rt) (lon c) of
                   None \<Rightarrow> throw TypeError
                 | Some lon_str \<Rightarrow>
                     (let URL = ''http://api.open-notify.org/iss-pass.json?lat='' @ lat_str
                                  @ ''&lon='' @ lon_str @ ''&n=5''
                      in request rt URL (\<lambda>r.
                           case r of
                             Failure err \<Rightarrow> callback (Some err) (Some JNull)
                           | Response statusCode body \<Rightarrow>
                               if statusCode \<noteq> 200 then
                                 (let msg = ''Status Code '' @ decimal statusCode
                                              @ '' when fetching iss data. Response: '' @ body
                                  in callback (Some (Error msg)) (Some JNull))
                               else
                                 (case JSON_parse rt body of
                                    None \<Rightarrow> throw SyntaxError
                                  | Some data \<Rightarrow>
                                      (case get_prop data ''message'' of
                                         Inl e \<Rightarrow> throw e
                                       | Inr message \<Rightarrow>
                                           if message = Some (JStr ''failure'') then
                                             callback
                                               (Some (Error (''ISS api returned status fail. Response: ''
                                                              @ body)))
                                               (Some JNull)
                                           else
                                             (case get_prop data ''response'' of
                                                Inl e \<Rightarrow> throw e
                                              | Inr response \<Rightarrow> callback None response))))))))"

text \<open>
  The three failure branches evaluate \<^verbatim>\<open>callback(err, null)\<close>, and no \<^verbatim>\<open>err\<close> is in
  scope there (the parameter is called \<^verbatim>\<open>error\<close>): evaluating the argument throws a
  ReferenceError before \<^verbatim>\<open>callback\<close> is called.
\<close>

definition nextISSTimesForMyLocation ::
  "'n runtime \<Rightarrow> (error option \<Rightarrow> 'n jsval \<Rightarrow> 'r answer) \<Rightarrow> 'r answer" where
  "nextISSTimesForMyLocation rt callback =
     fetchMyIP rt (\<lambda>error ip.
       if error \<noteq> None then throw (ReferenceError ''err'')
       else
         fetchCoordsByIP rt ip (\<lambda>error coords.
           if error \<noteq> None then throw (ReferenceError ''err'')
           else
             fetchISSFlyOverTimes rt coords (\<lambda>error issTimes.
               if error \<noteq> None then throw (ReferenceError ''err'')
               else callback None issTimes)))"

text \<open>A caller's callback that only records the two arguments it is called with.\<close>

definition observe :: "error option \<Rightarrow> 'a \<Rightarrow> (error option \<times> 'a) answer" where
  "observe err v = ([], Inr (err, v))"

section \<open>iss\_promised.js: the promise-based variant\<close>

text \<open>
  A promise is modelled by its course and its settlement: \<open>Inl e\<close> is a rejection with
  reason \<open>e\<close>, \<open>Inr v\<close> a fulfilment with \<open>v\<close>.

  \<^verbatim>\<open>request-promise-native\<close> with its default options rejects with a RequestError
  when the transport fails, rejects with a StatusCodeError when the status code, printed
  in decimal, does not start with the digit 2, and otherwise fulfils with the body.
\<close>

definition is2xx :: "nat \<Rightarrow> bool" where
  "is2xx statusCode = (case decimal statusCode of [] \<Rightarrow> False | c # _ \<Rightarrow> c = CHR ''2'')"

definition request_promise :: "'n runtime \<Rightarrow> string \<Rightarrow> string answer" where
  "request_promise rt url =
     emit (Requested url)
      (case respond rt url of
         Failure err \<Rightarrow> ([], Inl (RequestError err))
       | Response statusCode body \<Rightarrow>
           if is2xx statusCode then ([], Inr body)
           else ([], Inl (StatusCodeError statusCode body)))"

text \<open>
  \<^verbatim>\<open>p.then(f)\<close>: a rejected \<open>p\<close> skips \<open>f\<close>; otherwise \<open>f\<close> runs on the value, and
  what it throws rejects the new promise.
\<close>

definition then_promise :: "'a answer \<Rightarrow> ('a \<Rightarrow> 'b answer) \<Rightarrow> 'b answer" where
  "then_promise p f =
     (case snd p of
        Inl e \<Rightarrow> (fst p, Inl e)
      | Inr v \<Rightarrow> (fst p @ fst (f v), snd (f v)))"

definition fetchMyIP_promised :: "'n runtime \<Rightarrow> string answer" where
  "fetchMyIP_promised rt =
     emit (Invoked FetchMyIP) (request_promise rt ''https://api64.ipify.org/?format=json'')"

definition fetchCoordsByIP_promised :: "'n runtime \<Rightarrow> string \<Rightarrow> string answer" where
  "fetchCoordsByIP_promised rt body =
     emit (Invoked FetchCoordsByIP)
      (case JSON_parse rt body of
         None \<Rightarrow> throw SyntaxError
       | Some data \<Rightarrow>
           (case get_prop data ''ip'' of
              Inl e \<Rightarrow> throw e
            | Inr ip \<Rightarrow>
                (case template (Number_toString rt) ip of
                   None \<Rightarrow> throw TypeError
                 | Some ip_str \<Rightarrow> request_promise rt (''http://ip-api.com/json/'' @ ip_str))))"

definition fetchISSFlyOverTimes_promised :: "'n runtime \<Rightarrow> string \<Rightarrow> string answer" where
  "fetchISSFlyOverTimes_promised rt body =
     emit (Invoked FetchISSFlyOverTimes)
      (case JSON_parse rt body of
         None \<Rightarrow> throw SyntaxError
       | Some data \<Rightarrow>
           (case get_prop data ''lat'' of
              Inl e \<Rightarrow> throw e
            | Inr data_lat \<Rightarrow>
                (case get_prop data ''lon'' of
                   Inl e \<Rightarrow> throw e
                 | Inr data_lon \<Rightarrow>
                     (case template (Number_toString rt) data_lat of
                        None \<Rightarrow> throw TypeError
                      | Some lat_str \<Rightarrow>
                          (case template (Number_toString rt) data_lon of
                             None \<Rightarrow> throw TypeError
                           | Some lon_str \<Rightarrow>
                               (let URL = ''http://api.open-notify.org/iss-pass.json?lat=''
                                            @ lat_str @ ''&lon='' @ lon_str @ ''&n=5''
                                in request_promise rt URL))))))"

definition nextISSTimesForMyLocation_promised :: "'n runtime \<Rightarrow> 'n jsval answer" where
  "nextISSTimesForMyLocation_promised rt =
     then_promise
       (then_promise
          (then_promise (fetchMyIP_promised rt) (fetchCoordsByIP_promised rt))
          (fetchISSFlyOverTimes_promised rt))
       (\<lambda>data.
          case JSON_parse rt data of
            None \<Rightarrow> throw SyntaxError
          | Some d \<Rightarrow>
              (case get_prop d ''response'' of
                 Inl e \<Rightarrow> throw e
               | Inr response \<Rightarrow> ([], Inr response)))"

section \<open>Outcomes\<close>

text \<open>
  A callback-based resolver fails when it hands an error to its callback or throws; a
  promise fails when it is rejected.
\<close>

definition failed :: "(error option \<times> 'a) answer \<Rightarrow> bool" where
  "failed a = (case snd a of Inl e \<Rightarrow> True | Inr (err, v) \<Rightarrow> err \<noteq> None)"

definition rejected :: "'a answer \<Rightarrow> bool" where
  "rejected p = (case snd p of Inl e \<Rightarrow> True | Inr v \<Rightarrow> False)"

section \<open>A concrete runtime\<close>

text \<open>
  Three services that answer with fixed replies, a parser that knows the bodies used
  below, and the decimal printing of integers. The numbers of these bodies are integers
  (\<^verbatim>\<open>37.0\<close> is the number 37).
\<close>

definition show_int :: "int \<Rightarrow> string" where
  "show_int i = (if i < 0 then ''-'' @ decimal (nat (- i)) else decimal (nat i))"

definition demo_parse :: "string \<Rightarrow> int json option" where
  \<open>demo_parse body =
     (if body = ''{"ip":"1.2.3.4"}'' then
        Some (JObj [(''ip'', JStr ''1.2.3.4'')])
      else if body = ''{"status":"success","lat":37.0,"lon":-122.0}'' then
        Some (JObj [(''status'', JStr ''success''), (''lat'', JNum 37), (''lon'', JNum (- 122))])
      else if body = ''{"message":"success","response":[{"risetime":1000,"duration":600},{"risetime":2000,"duration":500}]}'' then
        Some (JObj [(''message'', JStr ''success''),
                    (''response'',
                     JArr [JObj [(''risetime'', JNum 1000), (''duration'', JNum 600)],
                           JObj [(''risetime'', JNum 2000), (''duration'', JNum 500)]])])
      else if body = ''{"status":"fail","message":"invalid query"}'' then
        Some (JObj [(''status'', JStr ''fail''), (''message'', JStr ''invalid query'')])
      else if body = ''{"message":"failure","reason":"Latitude must be specified"}'' then
        Some (JObj [(''message'', JStr ''failure''),
                    (''reason'', JStr ''Latitude must be specified'')])
      else if body = ''{"status":"success"}'' then
        Some (JObj [(''status'', JStr ''success'')])
      else if body = ''{}'' then
        Some (JObj [])
      else if body = ''null'' then
        Some JNull
      else None)\<close>

definition demo_runtime :: "reply \<Rightarrow> reply \<Rightarrow> reply \<Rightarrow> int runtime" where
  "demo_runtime r_ip r_geo r_pass =
     \<lparr>respond = (\<lambda>url.
        if url = ''https://api64.ipify.org/?format=json'' then r_ip
        else if prefix ''http://ip-api.com/json/'' url then r_geo
        else if prefix ''http://api.open-notify.org/iss-pass.json?'' url then r_pass
        else Failure (Error ''getaddrinfo ENOTFOUND'')),
      JSON_parse = demo_parse,
      Number_toString = show_int\<rparr>"

text \<open>The scenarios the statements below are evaluated on.\<close>

definition happy_day :: "int runtime" where
  \<open>happy_day =
     demo_runtime
       (Response 200 ''{"ip":"1.2.3.4"}'')
       (Response 200 ''{"status":"success","lat":37.0,"lon":-122.0}'')
       (Response 200 ''{"message":"success","response":[{"risetime":1000,"duration":600},{"risetime":2000,"duration":500}]}'')\<close>

definition all_down :: "int runtime" where
  "all_down = demo_runtime (Response 500 ''oops'') (Response 500 ''oops'') (Response 500 ''oops'')"

definition geo_down :: "int runtime" where
  \<open>geo_down =
     demo_runtime (Response 200 ''{"ip":"1.2.3.4"}'') (Response 500 ''oops'') (Response 500 ''oops'')\<close>

definition geo_says_fail :: "int runtime" where
  \<open>geo_says_fail =
     demo_runtime
       (Response 200 ''{"ip":"1.2.3.4"}'')
       (Response 200 ''{"status":"fail","message":"invalid query"}'')
       (Response 500 ''oops'')\<close>

definition pass_says_failure :: "int runtime" where
  \<open>pass_says_failure =
     demo_runtime
       (Response 200 ''{"ip":"1.2.3.4"}'')
       (Response 200 ''{"status":"success","lat":37.0,"lon":-122.0}'')
       (Response 200 ''{"message":"failure","reason":"Latitude must be specified"}'')\<close>

definition ip_without_field :: "int runtime" where
  "ip_without_field = demo_runtime (Response 200 ''{}'') (Response 500 ''oops'') (Response 500 ''oops'')"

definition ip_not_json :: "int runtime" where
  "ip_not_json =
     demo_runtime (Response 200 ''<html></html>'') (Response 500 ''oops'') (Response 500 ''oops'')"

definition ip_null :: "int runtime" where
  "ip_null = demo_runtime (Response 200 ''null'') (Response 500 ''oops'') (Response 500 ''oops'')"

definition geo_without_coords :: "int runtime" where
  \<open>geo_without_coords =
     demo_runtime
       (Response 200 ''{"ip":"1.2.3.4"}'')
       (Response 200 ''{"status":"success"}'')
       (Response 500 ''oops'')\<close>

section \<open>Auxiliary facts\<close>

lemmas callback_defs =
  fetchMyIP_def fetchCoordsByIP_def fetchISSFlyOverTimes_def nextISSTimesForMyLocation_def
  request_def emit_def throw_def observe_def

lemmas promise_defs =
  fetchMyIP_promised_def fetchCoordsByIP_promised_def fetchISSFlyOverTimes_promised_def
  nextISSTimesForMyLocation_promised_def request_promise_def then_promise_def emit_def throw_def

lemmas demo_defs =
  demo_runtime_def demo_parse_def show_int_def template_def decimal.simps digit_def

lemma decimal_200: "decimal 200 = ''200''"
  by (simp add: decimal.simps digit_def)

lemma is2xx_200: "is2xx 200"
  by (simp add: is2xx_def decimal_200)

lemma sublist_code_in_message: "sublist d (p @ d @ q @ b)"
  unfolding sublist_def by blast

lemma sublist_body_in_message: "sublist b (p @ d @ q @ b)"
proof -
  have "p @ d @ q @ b = (p @ d @ q) @ b @ []" by simp
  then show ?thesis unfolding sublist_def by blast
qed

lemma get_prop_absent:
  "v \<noteq> JNull \<Longrightarrow> \<not> has_field v k \<Longrightarrow> get_prop v k = Inr None"
proof (cases v)
  case (JObj kvs)
  assume "\<not> has_field v k"
  with JObj have "k \<notin> fst ` set (rev kvs)"
    by (simp add: has_field_def)
  then have "map_of (rev kvs) k = None"
    by (simp add: map_of_eq_None_iff)
  with JObj show ?thesis by simp
qed simp_all

section \<open>The resolvers\<close>

text \<open>
  C7. When the IP-echo service answers 200 with a JSON object whose \<^verbatim>\<open>ip\<close> property is
  a string, the IP resolver yields exactly that string: the callback-based
  \<^verbatim>\<open>fetchMyIP\<close> calls back with a null error and the string; in the promise-based
  variant \<^verbatim>\<open>fetchMyIP\<close> fulfils with the body and \<^verbatim>\<open>fetchCoordsByIP\<close> splices the
  string, unchanged, into the URL it requests.
\<close>

theorem fetchMyIP_returns_ip_field:
  assumes "respond rt ''https://api64.ipify.org/?format=json'' = Response 200 body"
      and "JSON_parse rt body = Some (JObj kvs)"
      and "map_of (rev kvs) ''ip'' = Some (JStr s)"
  shows "snd (fetchMyIP rt observe) = Inr (None, Some (JStr s))
       \<and> snd (fetchMyIP_promised rt) = Inr body
       \<and> fetchCoordsByIP_promised rt body =
           emit (Invoked FetchCoordsByIP) (request_promise rt (''http://ip-api.com/json/'' @ s))"
  using assms by (simp add: callback_defs promise_defs is2xx_200 template_def)

theorem fetchMyIP_returns_ip_field_witness:
  \<open>respond happy_day ''https://api64.ipify.org/?format=json'' = Response 200 ''{"ip":"1.2.3.4"}''
   \<and> JSON_parse happy_day ''{"ip":"1.2.3.4"}'' = Some (JObj [(''ip'', JStr ''1.2.3.4'')])
   \<and> snd (fetchMyIP happy_day observe) = Inr (None, Some (JStr ''1.2.3.4''))
   \<and> snd (fetchMyIP_promised happy_day) = Inr ''{"ip":"1.2.3.4"}''
   \<and> fetchCoordsByIP_promised happy_day ''{"ip":"1.2.3.4"}'' =
        emit (Invoked FetchCoordsByIP)
          (request_promise happy_day ''http://ip-api.com/json/1.2.3.4'')\<close>
  using fetchMyIP_returns_ip_field
          [where rt = happy_day and body = \<open>''{"ip":"1.2.3.4"}''\<close>
             and kvs = "[(''ip'', JStr ''1.2.3.4'')]" and s = "''1.2.3.4''"]
  by (simp add: happy_day_def demo_runtime_def demo_parse_def)

text \<open>
  C8. A response whose status code is not 200 makes each of the three callback-based
  resolvers call back with \<^verbatim>\<open>Error(msg)\<close> and \<^verbatim>\<open>null\<close>, where \<open>msg\<close> contains the
  decimal status code and the raw body.
\<close>

theorem non200_gives_status_error:
  "(respond rt ''https://api64.ipify.org/?format=json'' = Response statusCode body
      \<and> statusCode \<noteq> 200 \<longrightarrow>
    (let msg = ''Status Code '' @ decimal statusCode @ '' when fetching IP. Response: '' @ body
     in snd (fetchMyIP rt observe) = Inr (Some (Error msg), Some JNull)
        \<and> sublist (decimal statusCode) msg \<and> sublist body msg))
 \<and> (template (Number_toString rt) ip = Some ip_str
      \<and> respond rt (''http://ip-api.com/json/'' @ ip_str) = Response statusCode body
      \<and> statusCode \<noteq> 200 \<longrightarrow>
    (let msg = ''Status Code '' @ decimal statusCode
                 @ '' when fetching coordinates. Response: '' @ body
     in snd (fetchCoordsByIP rt ip observe) = Inr (Some (Error msg), None)
        \<and> sublist (decimal statusCode) msg \<and> sublist body msg))
 \<and> (template (Number_toString rt) (lat c) = Some lat_str
      \<and> template (Number_toString rt) (lon c) = Some lon_str
      \<and> respond rt (''http://api.open-notify.org/iss-pass.json?lat='' @ lat_str
                       @ ''&lon='' @ lon_str @ ''&n=5'') = Response statusCode body
      \<and> statusCode \<noteq> 200 \<longrightarrow>
    (let msg = ''Status Code '' @ decimal statusCode
                 @ '' when fetching iss data. Response: '' @ body
     in snd (fetchISSFlyOverTimes rt (Some c) observe) = Inr (Some (Error msg), Some JNull)
        \<and> sublist (decimal statusCode) msg \<and> sublist body msg))"
proof (intro conjI impI; elim conjE; unfold Let_def; intro conjI)
  show "sublist (decimal statusCode)
          (''Status Code '' @ decimal statusCode @ '' when fetching IP. Response: '' @ body)"
    by (rule sublist_code_in_message)
  show "sublist body
          (''Status Code '' @ decimal statusCode @ '' when fetching IP. Response: '' @ body)"
    by (rule sublist_body_in_message)
  show "sublist (decimal statusCode)
          (''Status Code '' @ decimal statusCode
             @ '' when fetching coordinates. Response: '' @ body)"
    by (rule sublist_code_in_message)
  show "sublist body
          (''Status Code '' @ decimal statusCode
             @ '' when fetching coordinates. Response: '' @ body)"
    by (rule sublist_body_in_message)
  show "sublist (decimal statusCode)
          (''Status Code '' @ decimal statusCode @ '' when fetching iss data. Response: '' @ body)"
    by (rule sublist_code_in_message)
  show "sublist body
          (''Status Code '' @ decimal statusCode @ '' when fetching iss data. Response: '' @ body)"
    by (rule sublist_body_in_message)
qed (simp_all add: callback_defs)

theorem non200_gives_status_error_witness:
  "snd (fetchMyIP all_down observe)
     = Inr (Some (Error ''Status Code 500 when fetching IP. Response: oops''), Some JNull)
   \<and> snd (fetchCoordsByIP all_down (Some (JStr ''1.2.3.4'')) observe)
     = Inr (Some (Error ''Status Code 500 when fetching coordinates. Response: oops''), None)
   \<and> snd (fetchISSFlyOverTimes all_down
            (Some \<lparr>lat = Some (JNum 37), lon = Some (JNum (- 122))\<rparr>) observe)
     = Inr (Some (Error ''Status Code 500 when fetching iss data. Response: oops''), Some JNull)
   \<and> sublist ''500'' ''Status Code 500 when fetching IP. Response: oops''
   \<and> sublist ''oops'' ''Status Code 500 when fetching IP. Response: oops''"
  using non200_gives_status_error
          [where rt = all_down and statusCode = 500 and body = "''oops''"
             and ip = "Some (JStr ''1.2.3.4'')" and ip_str = "''1.2.3.4''"
             and c = "\<lparr>lat = Some (JNum 37), lon = Some (JNum (- 122))\<rparr>"
             and lat_str = "''37''" and lon_str = "''-122''"]
  by (simp add: all_down_def demo_defs Let_def)

text \<open>
  C10. A 200 geolocation response whose body parses to a value other than \<^verbatim>\<open>null\<close>,
  whose \<^verbatim>\<open>status\<close> is not the string \<^verbatim>\<open>fail\<close> and which lacks \<^verbatim>\<open>lat\<close> or
  \<^verbatim>\<open>lon\<close>, makes the callback-based \<^verbatim>\<open>fetchCoordsByIP\<close> call back with a null error
  and a coordinates object whose missing fields are \<^verbatim>\<open>undefined\<close>.
\<close>

theorem fetchCoordsByIP_missing_coords_succeeds:
  assumes "template (Number_toString rt) ip = Some ip_str"
      and "respond rt (''http://ip-api.com/json/'' @ ip_str) = Response 200 body"
      and "JSON_parse rt body = Some data"
      and "get_prop data ''status'' = Inr status"
      and "status \<noteq> Some (JStr ''fail'')"
      and "get_prop data ''lat'' = Inr data_lat"
      and "get_prop data ''lon'' = Inr data_lon"
      and "data_lat = None \<or> data_lon = None"
  shows "snd (fetchCoordsByIP rt ip observe)
           = Inr (None, Some \<lparr>lat = data_lat, lon = data_lon\<rparr>)"
  using assms by (simp add: callback_defs)

theorem fetchCoordsByIP_missing_coords_succeeds_witness:
  \<open>respond geo_without_coords ''http://ip-api.com/json/1.2.3.4''
       = Response 200 ''{"status":"success"}''
   \<and> JSON_parse geo_without_coords ''{"status":"success"}''
       = Some (JObj [(''status'', JStr ''success'')])
   \<and> snd (fetchCoordsByIP geo_without_coords (Some (JStr ''1.2.3.4'')) observe)
       = Inr (None, Some \<lparr>lat = None, lon = None\<rparr>)\<close>
  using fetchCoordsByIP_missing_coords_succeeds
          [where rt = geo_without_coords and ip = "Some (JStr ''1.2.3.4'')"
             and ip_str = "''1.2.3.4''" and body = \<open>''{"status":"success"}''\<close>
             and data = "JObj [(''status'', JStr ''success'')]"
             and status = "Some (JStr ''success'')" and data_lat = None and data_lon = None]
  by (simp add: geo_without_coords_def demo_defs)

text \<open>
  C4, as the code has it. A 200 geolocation response whose body has \<^verbatim>\<open>status\<close> equal to
  \<^verbatim>\<open>fail\<close> makes the callback-based \<^verbatim>\<open>fetchCoordsByIP\<close> call back with
  \<^verbatim>\<open>Error("Coordinates api returned status fail. Response: " + body)\<close> and \<^verbatim>\<open>null\<close>;
  the promise-based \<^verbatim>\<open>fetchCoordsByIP\<close> never inspects the body and fulfils with it.
\<close>

theorem fetchCoordsByIP_status_fail:
  assumes "template (Number_toString rt) ip = Some ip_str"
      and "respond rt (''http://ip-api.com/json/'' @ ip_str) = Response 200 body"
      and "JSON_parse rt body = Some data"
      and "get_prop data ''status'' = Inr (Some (JStr ''fail''))"
  shows "snd (fetchCoordsByIP rt ip observe)
           = Inr (Some (Error (''Coordinates api returned status fail. Response: '' @ body)), None)
       \<and> (JSON_parse rt ip_body = Some ip_data \<and> get_prop ip_data ''ip'' = Inr ip
            \<longrightarrow> snd (fetchCoordsByIP_promised rt ip_body) = Inr body)"
  using assms by (simp add: callback_defs promise_defs is2xx_200)

theorem fetchCoordsByIP_status_fail_witness:
  \<open>respond geo_says_fail ''http://ip-api.com/json/1.2.3.4''
       = Response 200 ''{"status":"fail","message":"invalid query"}''
   \<and> snd (fetchCoordsByIP geo_says_fail (Some (JStr ''1.2.3.4'')) observe)
       = Inr (Some (Error ''Coordinates api returned status fail. Response: {"status":"fail","message":"invalid query"}''),
              None)
   \<and> snd (fetchCoordsByIP_promised geo_says_fail ''{"ip":"1.2.3.4"}'')
       = Inr ''{"status":"fail","message":"invalid query"}''\<close>
  using fetchCoordsByIP_status_fail
          [where rt = geo_says_fail and ip = "Some (JStr ''1.2.3.4'')" and ip_str = "''1.2.3.4''"
             and body = \<open>''{"status":"fail","message":"invalid query"}''\<close>
             and data = "JObj [(''status'', JStr ''fail''), (''message'', JStr ''invalid query'')]"
             and ip_body = \<open>''{"ip":"1.2.3.4"}''\<close>
             and ip_data = "JObj [(''ip'', JStr ''1.2.3.4'')]"]
  by (simp add: geo_says_fail_def demo_defs)

text \<open>
  The claim C4 fails for the promise-based variant: the geolocation service answers 200
  with \<^verbatim>\<open>status\<close> equal to \<^verbatim>\<open>fail\<close>, and \<^verbatim>\<open>fetchCoordsByIP\<close> fulfils with that body
  instead of rejecting.
\<close>

theorem fetchCoordsByIP_promised_status_fail_counterexample:
  \<open>respond geo_says_fail ''http://ip-api.com/json/1.2.3.4''
       = Response 200 ''{"status":"fail","message":"invalid query"}''
   \<and> JSON_parse geo_says_fail ''{"status":"fail","message":"invalid query"}''
       = Some (JObj [(''status'', JStr ''fail''), (''message'', JStr ''invalid query'')])
   \<and> \<not> rejected (fetchCoordsByIP_promised geo_says_fail ''{"ip":"1.2.3.4"}'')
   \<and> snd (fetchCoordsByIP_promised geo_says_fail ''{"ip":"1.2.3.4"}'')
       = Inr ''{"status":"fail","message":"invalid query"}''\<close>
  by (simp add: geo_says_fail_def demo_defs promise_defs rejected_def is2xx_200)

text \<open>
  C5, as the code has it. A 200 pass-prediction response whose body has \<^verbatim>\<open>message\<close>
  equal to \<^verbatim>\<open>failure\<close> makes the callback-based \<^verbatim>\<open>fetchISSFlyOverTimes\<close> call back
  with \<^verbatim>\<open>Error("ISS api returned status fail. Response: " + body)\<close> and \<^verbatim>\<open>null\<close>; the
  promise-based \<^verbatim>\<open>fetchISSFlyOverTimes\<close> never inspects the body and fulfils with it.
\<close>

theorem fetchISSFlyOverTimes_message_failure:
  assumes "template (Number_toString rt) data_lat = Some lat_str"
      and "template (Number_toString rt) data_lon = Some lon_str"
      and "respond rt (''http://api.open-notify.org/iss-pass.json?lat='' @ lat_str
                         @ ''&lon='' @ lon_str @ ''&n=5'') = Response 200 body"
      and "JSON_parse rt body = Some data"
      and "get_prop data ''message'' = Inr (Some (JStr ''failure''))"
  shows "snd (fetchISSFlyOverTimes rt (Some \<lparr>lat = data_lat, lon = data_lon\<rparr>) observe)
           = Inr (Some (Error (''ISS api returned status fail. Response: '' @ body)), Some JNull)
       \<and> (JSON_parse rt geo_body = Some geo_data
            \<and> get_prop geo_data ''lat'' = Inr data_lat \<and> get_prop geo_data ''lon'' = Inr data_lon
            \<longrightarrow> snd (fetchISSFlyOverTimes_promised rt geo_body) = Inr body)"
  using assms by (simp add: callback_defs promise_defs is2xx_200)

theorem fetchISSFlyOverTimes_message_failure_witness:
  \<open>respond pass_says_failure ''http://api.open-notify.org/iss-pass.json?lat=37&lon=-122&n=5''
       = Response 200 ''{"message":"failure","reason":"Latitude must be specified"}''
   \<and> snd (fetchISSFlyOverTimes pass_says_failure
            (Some \<lparr>lat = Some (JNum 37), lon = Some (JNum (- 122))\<rparr>) observe)
       = Inr (Some (Error ''ISS api returned status fail. Response: {"message":"failure","reason":"Latitude must be specified"}''),
              Some JNull)
   \<and> snd (fetchISSFlyOverTimes_promised pass_says_failure
            ''{"status":"success","lat":37.0,"lon":-122.0}'')
       = Inr ''{"message":"failure","reason":"Latitude must be specified"}''\<close>
  using fetchISSFlyOverTimes_message_failure
          [where rt = pass_says_failure and data_lat = "Some (JNum 37)"
             and data_lon = "Some (JNum (- 122))" and lat_str = "''37''" and lon_str = "''-122''"
             and body = \<open>''{"message":"failure","reason":"Latitude must be specified"}''\<close>
             and data = "JObj [(''message'', JStr ''failure''),
                               (''reason'', JStr ''Latitude must be specified'')]"
             and geo_body = \<open>''{"status":"success","lat":37.0,"lon":-122.0}''\<close>
             and geo_data = "JObj [(''status'', JStr ''success''), (''lat'', JNum 37),
                                   (''lon'', JNum (- 122))]"]
  by (simp add: pass_says_failure_def demo_defs)

text \<open>
  The claim C5 fails for the promise-based variant: the pass-prediction service answers
  200 with \<^verbatim>\<open>message\<close> equal to \<^verbatim>\<open>failure\<close>, \<^verbatim>\<open>fetchISSFlyOverTimes\<close> fulfils with
  that body, and the orchestrator fulfils with the body's \<^verbatim>\<open>response\<close> property, here
  \<^verbatim>\<open>undefined\<close>.
\<close>

theorem fetchISSFlyOverTimes_promised_failure_counterexample:
  \<open>respond pass_says_failure ''http://api.open-notify.org/iss-pass.json?lat=37&lon=-122&n=5''
       = Response 200 ''{"message":"failure","reason":"Latitude must be specified"}''
   \<and> JSON_parse pass_says_failure ''{"message":"failure","reason":"Latitude must be specified"}''
       = Some (JObj [(''message'', JStr ''failure''),
                     (''reason'', JStr ''Latitude must be specified'')])
   \<and> snd (fetchISSFlyOverTimes_promised pass_says_failure
            ''{"status":"success","lat":37.0,"lon":-122.0}'')
       = Inr ''{"message":"failure","reason":"Latitude must be specified"}''
   \<and> snd (nextISSTimesForMyLocation_promised pass_says_failure) = Inr None\<close>
  by (simp add: pass_says_failure_def demo_defs promise_defs is2xx_200)

text \<open>
  C6, as the code has it. \<^verbatim>\<open>fetchMyIP\<close> never passes a parse error to its callback.
  On a 200 IP-echo response:
  \<^item> a body that does not parse makes \<^verbatim>\<open>JSON.parse\<close> throw a SyntaxError, which leaves
    the request callback uncaught; the caller's callback is not called;
  \<^item> the body \<^verbatim>\<open>null\<close> makes the read of \<^verbatim>\<open>.ip\<close> throw a TypeError, which escapes the
    same way;
  \<^item> a body that parses to any other value without an \<^verbatim>\<open>ip\<close> property is a success:
    the callback is called with a null error and \<^verbatim>\<open>undefined\<close>.
\<close>

theorem fetchMyIP_unusable_body:
  "(respond rt ''https://api64.ipify.org/?format=json'' = Response 200 body
      \<and> JSON_parse rt body = None
    \<longrightarrow> fetchMyIP rt callback =
          ([Invoked FetchMyIP, Requested ''https://api64.ipify.org/?format=json''],
           Inl SyntaxError))
 \<and> (respond rt0 ''https://api64.ipify.org/?format=json'' = Response 200 body0
      \<and> JSON_parse rt0 body0 = Some JNull
    \<longrightarrow> fetchMyIP rt0 callback0 =
          ([Invoked FetchMyIP, Requested ''https://api64.ipify.org/?format=json''],
           Inl TypeError))
 \<and> (respond rt' ''https://api64.ipify.org/?format=json'' = Response 200 body'
      \<and> JSON_parse rt' body' = Some data \<and> data \<noteq> JNull \<and> \<not> has_field data ''ip''
    \<longrightarrow> fetchMyIP rt' callback' =
          ([Invoked FetchMyIP, Requested ''https://api64.ipify.org/?format=json'']
             @ fst (callback' None None),
           snd (callback' None None)))"
  by (simp add: callback_defs get_prop_absent)

theorem fetchMyIP_unusable_body_witness:
  "respond ip_not_json ''https://api64.ipify.org/?format=json'' = Response 200 ''<html></html>''
   \<and> JSON_parse ip_not_json ''<html></html>'' = None
   \<and> fetchMyIP ip_not_json (observe :: error option \<Rightarrow> int jsval \<Rightarrow> _) =
        ([Invoked FetchMyIP, Requested ''https://api64.ipify.org/?format=json''],
         Inl SyntaxError)
   \<and> respond ip_null ''https://api64.ipify.org/?format=json'' = Response 200 ''null''
   \<and> JSON_parse ip_null ''null'' = Some JNull
   \<and> fetchMyIP ip_null (observe :: error option \<Rightarrow> int jsval \<Rightarrow> _) =
        ([Invoked FetchMyIP, Requested ''https://api64.ipify.org/?format=json''],
         Inl TypeError)
   \<and> respond ip_without_field ''https://api64.ipify.org/?format=json'' = Response 200 ''{}''
   \<and> JSON_parse ip_without_field ''{}'' = Some (JObj [])
   \<and> \<not> has_field (JObj [] :: int json) ''ip''
   \<and> fetchMyIP ip_without_field observe =
        ([Invoked FetchMyIP, Requested ''https://api64.ipify.org/?format=json''],
         Inr (None, None))"
  using fetchMyIP_unusable_body
          [where rt = ip_not_json and body = "''<html></html>''"
             and callback = "observe :: error option \<Rightarrow> int jsval \<Rightarrow> _"
             and ?rt0.0 = ip_null and ?body0.0 = "''null''"
             and ?callback0.0 = "observe :: error option \<Rightarrow> int jsval \<Rightarrow> _"
             and rt' = ip_without_field and body' = "''{}''" and data = "JObj []"
             and callback' = "observe :: error option \<Rightarrow> int jsval \<Rightarrow> _"]
  by (simp add: ip_not_json_def ip_null_def ip_without_field_def demo_defs observe_def
        has_field_def)

text \<open>
  The claim C6 fails: the IP-echo service answers 200 with the body \<^verbatim>\<open>{}\<close>, which has no
  \<^verbatim>\<open>ip\<close> property, and \<^verbatim>\<open>fetchMyIP\<close> reports success with \<^verbatim>\<open>undefined\<close>.
\<close>

theorem fetchMyIP_missing_ip_counterexample:
  "respond ip_without_field ''https://api64.ipify.org/?format=json'' = Response 200 ''{}''
   \<and> JSON_parse ip_without_field ''{}'' = Some (JObj [])
   \<and> get_prop (JObj [] :: int json) ''ip'' = Inr None
   \<and> \<not> failed (fetchMyIP ip_without_field observe)
   \<and> snd (fetchMyIP ip_without_field observe) = Inr (None, None)"
  by (simp add: ip_without_field_def demo_defs callback_defs failed_def)

section \<open>The orchestrator\<close>

text \<open>
  C3. When the IP-echo service answers 200 with \<^verbatim>\<open>{"ip":"1.2.3.4"}\<close>, the geolocation
  service answers 200 with \<^verbatim>\<open>{"status":"success","lat":37.0,"lon":-122.0}\<close> and the
  pass-time service answers 200 with the two pass events below, both variants of
  \<^verbatim>\<open>nextISSTimesForMyLocation\<close> succeed with exactly the list of the two events.
\<close>

theorem nextISSTimesForMyLocation_end_to_end:
  fixes rt :: "int runtime"
  assumes \<open>respond rt ''https://api64.ipify.org/?format=json'' = Response 200 ''{"ip":"1.2.3.4"}''\<close>
      and \<open>JSON_parse rt ''{"ip":"1.2.3.4"}'' = Some (JObj [(''ip'', JStr ''1.2.3.4'')])\<close>
      and \<open>respond rt ''http://ip-api.com/json/1.2.3.4''
             = Response 200 ''{"status":"success","lat":37.0,"lon":-122.0}''\<close>
      and \<open>JSON_parse rt ''{"status":"success","lat":37.0,"lon":-122.0}''
             = Some (JObj [(''status'', JStr ''success''), (''lat'', JNum 37),
                           (''lon'', JNum (- 122))])\<close>
      and \<open>Number_toString rt 37 = ''37''\<close>
      and \<open>Number_toString rt (- 122) = ''-122''\<close>
      and \<open>respond rt ''http://api.open-notify.org/iss-pass.json?lat=37&lon=-122&n=5''
             = Response 200 ''{"message":"success","response":[{"risetime":1000,"duration":600},{"risetime":2000,"duration":500}]}''\<close>
      and \<open>JSON_parse rt ''{"message":"success","response":[{"risetime":1000,"duration":600},{"risetime":2000,"duration":500}]}''
             = Some (JObj [(''message'', JStr ''success''),
                           (''response'',
                            JArr [JObj [(''risetime'', JNum 1000), (''duration'', JNum 600)],
                                  JObj [(''risetime'', JNum 2000), (''duration'', JNum 500)]])])\<close>
  shows "snd (nextISSTimesForMyLocation rt observe)
           = Inr (None, Some (JArr [JObj [(''risetime'', JNum 1000), (''duration'', JNum 600)],
                                    JObj [(''risetime'', JNum 2000), (''duration'', JNum 500)]]))
       \<and> snd (nextISSTimesForMyLocation_promised rt)
           = Inr (Some (JArr [JObj [(''risetime'', JNum 1000), (''duration'', JNum 600)],
                              JObj [(''risetime'', JNum 2000), (''duration'', JNum 500)]]))"
  using assms by (simp add: callback_defs promise_defs is2xx_200 template_def)

theorem nextISSTimesForMyLocation_end_to_end_witness:
  "snd (nextISSTimesForMyLocation happy_day observe)
           = Inr (None, Some (JArr [JObj [(''risetime'', JNum 1000), (''duration'', JNum 600)],
                                    JObj [(''risetime'', JNum 2000), (''duration'', JNum 500)]]))
       \<and> snd (nextISSTimesForMyLocation_promised happy_day)
           = Inr (Some (JArr [JObj [(''risetime'', JNum 1000), (''duration'', JNum 600)],
                              JObj [(''risetime'', JNum 2000), (''duration'', JNum 500)]]))"
  using nextISSTimesForMyLocation_end_to_end [where rt = happy_day]
  by (simp add: happy_day_def demo_defs)

text \<open>
  C1 does not hold of the callback-based orchestrator. Whichever stage hands an error to
  its callback (the IP-echo service answering 500, the geolocation service answering 500,
  the pass-time service answering 200 with \<^verbatim>\<open>message\<close> equal to \<^verbatim>\<open>failure\<close>), the
  orchestrator's failure branch throws a ReferenceError for the undeclared \<^verbatim>\<open>err\<close>;
  the caller's callback never sees the stage's error.
\<close>

theorem nextISSTimesForMyLocation_failure_branch_throws:
  \<open>snd (fetchMyIP all_down observe)
     = Inr (Some (Error ''Status Code 500 when fetching IP. Response: oops''), Some JNull)
   \<and> nextISSTimesForMyLocation all_down observe
     = ([Invoked FetchMyIP, Requested ''https://api64.ipify.org/?format=json''],
        Inl (ReferenceError ''err''))
   \<and> snd (fetchCoordsByIP geo_down (Some (JStr ''1.2.3.4'')) observe)
     = Inr (Some (Error ''Status Code 500 when fetching coordinates. Response: oops''), None)
   \<and> snd (nextISSTimesForMyLocation geo_down observe) = Inl (ReferenceError ''err'')
   \<and> snd (fetchISSFlyOverTimes pass_says_failure
            (Some \<lparr>lat = Some (JNum 37), lon = Some (JNum (- 122))\<rparr>) observe)
     = Inr (Some (Error ''ISS api returned status fail. Response: {"message":"failure","reason":"Latitude must be specified"}''),
            Some JNull)
   \<and> snd (nextISSTimesForMyLocation pass_says_failure observe) = Inl (ReferenceError ''err'')\<close>
  by (simp add: all_down_def geo_down_def pass_says_failure_def demo_defs callback_defs)

subsection \<open>The first failure aborts the remaining stages\<close>

lemma callback_ip_failure_aborts:
  "failed (fetchMyIP rt observe) \<Longrightarrow>
     fst (nextISSTimesForMyLocation rt callback)
       = [Invoked FetchMyIP, Requested ''https://api64.ipify.org/?format=json'']"
  by (auto simp: callback_defs failed_def split: reply.splits option.splits sum.splits if_splits)

lemma callback_geo_failure_aborts:
  "snd (fetchMyIP rt observe) = Inr (None, ip) \<Longrightarrow> failed (fetchCoordsByIP rt ip observe) \<Longrightarrow>
     Invoked FetchISSFlyOverTimes \<notin> set (fst (nextISSTimesForMyLocation rt callback))"
  by (auto simp: callback_defs failed_def split: reply.splits option.splits sum.splits if_splits)

lemma promised_ip_failure_aborts:
  "rejected (fetchMyIP_promised rt) \<Longrightarrow>
     fst (nextISSTimesForMyLocation_promised rt)
       = [Invoked FetchMyIP, Requested ''https://api64.ipify.org/?format=json'']"
  by (auto simp: promise_defs rejected_def split: reply.splits option.splits sum.splits if_splits)

lemma promised_geo_failure_aborts:
  "snd (fetchMyIP_promised rt) = Inr body \<Longrightarrow> rejected (fetchCoordsByIP_promised rt body) \<Longrightarrow>
     Invoked FetchISSFlyOverTimes \<notin> set (fst (nextISSTimesForMyLocation_promised rt))"
  by (auto simp: promise_defs rejected_def split: reply.splits option.splits sum.splits if_splits)

text \<open>
  C2. In both variants: if the IP resolver fails, neither \<^verbatim>\<open>fetchCoordsByIP\<close> nor
  \<^verbatim>\<open>fetchISSFlyOverTimes\<close> is entered in that invocation; if the IP resolver succeeds
  and the geolocation resolver fails on its result, \<^verbatim>\<open>fetchISSFlyOverTimes\<close> is not
  entered.
\<close>

theorem first_failure_aborts:
  "(failed (fetchMyIP rt observe) \<longrightarrow>
      Invoked FetchCoordsByIP \<notin> set (fst (nextISSTimesForMyLocation rt callback))
    \<and> Invoked FetchISSFlyOverTimes \<notin> set (fst (nextISSTimesForMyLocation rt callback)))
 \<and> (snd (fetchMyIP rt' observe) = Inr (None, ip) \<and> failed (fetchCoordsByIP rt' ip observe) \<longrightarrow>
      Invoked FetchISSFlyOverTimes \<notin> set (fst (nextISSTimesForMyLocation rt' callback')))
 \<and> (rejected (fetchMyIP_promised rt) \<longrightarrow>
      Invoked FetchCoordsByIP \<notin> set (fst (nextISSTimesForMyLocation_promised rt))
    \<and> Invoked FetchISSFlyOverTimes \<notin> set (fst (nextISSTimesForMyLocation_promised rt)))
 \<and> (snd (fetchMyIP_promised rt') = Inr body \<and> rejected (fetchCoordsByIP_promised rt' body) \<longrightarrow>
      Invoked FetchISSFlyOverTimes \<notin> set (fst (nextISSTimesForMyLocation_promised rt')))"
  by (simp add: callback_ip_failure_aborts callback_geo_failure_aborts
        promised_ip_failure_aborts promised_geo_failure_aborts)

theorem first_failure_aborts_witness:
  \<open>failed (fetchMyIP all_down observe)
   \<and> rejected (fetchMyIP_promised all_down)
   \<and> snd (fetchMyIP geo_down observe) = Inr (None, Some (JStr ''1.2.3.4''))
   \<and> failed (fetchCoordsByIP geo_down (Some (JStr ''1.2.3.4'')) observe)
   \<and> snd (fetchMyIP_promised geo_down) = Inr ''{"ip":"1.2.3.4"}''
   \<and> rejected (fetchCoordsByIP_promised geo_down ''{"ip":"1.2.3.4"}'')
   \<and> Invoked FetchCoordsByIP \<notin> set (fst (nextISSTimesForMyLocation all_down observe))
   \<and> Invoked FetchISSFlyOverTimes \<notin> set (fst (nextISSTimesForMyLocation all_down observe))
   \<and> Invoked FetchISSFlyOverTimes \<notin> set (fst (nextISSTimesForMyLocation geo_down observe))
   \<and> Invoked FetchCoordsByIP \<notin> set (fst (nextISSTimesForMyLocation_promised all_down))
   \<and> Invoked FetchISSFlyOverTimes \<notin> set (fst (nextISSTimesForMyLocation_promised all_down))
   \<and> Invoked FetchISSFlyOverTimes \<notin> set (fst (nextISSTimesForMyLocation_promised geo_down))\<close>
proof -
  have hyps:
    \<open>failed (fetchMyIP all_down observe)\<close>
    \<open>rejected (fetchMyIP_promised all_down)\<close>
    \<open>snd (fetchMyIP geo_down observe) = Inr (None, Some (JStr ''1.2.3.4''))\<close>
    \<open>failed (fetchCoordsByIP geo_down (Some (JStr ''1.2.3.4'')) observe)\<close>
    \<open>snd (fetchMyIP_promised geo_down) = Inr ''{"ip":"1.2.3.4"}''\<close>
    \<open>rejected (fetchCoordsByIP_promised geo_down ''{"ip":"1.2.3.4"}'')\<close>
    by (simp_all add: all_down_def geo_down_def demo_defs callback_defs promise_defs
          failed_def rejected_def is2xx_def)
  show ?thesis
    using hyps
      first_failure_aborts
        [where rt = all_down and rt' = geo_down and ip = "Some (JStr ''1.2.3.4'')"
           and body = \<open>''{"ip":"1.2.3.4"}''\<close>
           and callback = "observe :: error option \<Rightarrow> int jsval \<Rightarrow> _"
           and callback' = "observe :: error option \<Rightarrow> int jsval \<Rightarrow> _"]
    by simp
qed

end
